theory Spec2Isabelle
  imports Main
begin

section \<open>Pointers, objects and program state\<close>

text \<open>
  A raw pointer \<^verbatim>\<open>T*\<close> is either \<^verbatim>\<open>nullptr\<close> or the address of one heap
  allocation. An address names an allocation: the caller's \<^verbatim>\<open>new\<close> yields a
  reference that no earlier allocation had.
\<close>

datatype ptr = nullptr | Addr nat

text \<open>
  The general class template \<^verbatim>\<open>unique_ptr<T, deleter>\<close> has two data members,
  \<^verbatim>\<open>T * ptr_resource = nullptr\<close> and \<^verbatim>\<open>deleter operator_delete\<close>. The deleter
  is a function object; calling it acts on the world outside the handle (type \<open>'w\<close>).
\<close>

record 'w unique_ptr =
  ptr_resource :: ptr
  operator_delete :: "ptr \<Rightarrow> 'w \<Rightarrow> 'w"

text \<open>
  The simplified class template \<^verbatim>\<open>unique_ptr<T>\<close> has the pointer only.
\<close>

record unique_ptr_s =
  ptr_resource_s :: ptr

text \<open>
  Member functions take references to handle objects, and two references may name the
  same object, so handle objects live in a store indexed by object identity.
  \<open>objs\<close> is the storage of the objects, \<open>live\<close> lists the objects whose lifetime has
  begun and not ended, \<open>world\<close> is what the deleter acts on, and \<open>trace\<close> records every
  call of the deleter: which object made it and with which argument. \<open>held_at_call\<close>
  records, for every call of the deleter in the same order, the pointer that the
  calling object's \<^verbatim>\<open>ptr_resource\<close> held at the moment of the call, so that the
  order of a deleter call and a store to the pointer shows in the state.
\<close>

record ('o, 'w) state =
  objs :: "nat \<Rightarrow> 'o"
  live :: "nat list"
  world :: 'w
  trace :: "(nat \<times> ptr) list"
  held_at_call :: "ptr list"

text \<open>The only exception the source throws is \<^verbatim>\<open>std::invalid_argument\<close>.\<close>

datatype exn = InvalidArgument

section \<open>The general variant \<^verbatim>\<open>unique_ptr<T, deleter>\<close>\<close>

text \<open>Reading and writing the member \<^verbatim>\<open>ptr_resource\<close> of the object \<open>this\<close>.\<close>

definition rd :: "('w unique_ptr, 'w) state \<Rightarrow> nat \<Rightarrow> ptr" where
  "rd s this = ptr_resource (objs s this)"

definition wr :: "nat \<Rightarrow> ptr \<Rightarrow> ('w unique_ptr, 'w) state \<Rightarrow> ('w unique_ptr, 'w) state" where
  "wr this p s = s\<lparr>objs := (objs s)(this := (objs s this)\<lparr>ptr_resource := p\<rparr>)\<rparr>"

text \<open>
  The call \<^verbatim>\<open>operator_delete(p)\<close> made inside the object \<open>this\<close>: the deleter
  stored in the object acts on the world, and the call is recorded.
\<close>

definition call_deleter :: "nat \<Rightarrow> ptr \<Rightarrow> ('w unique_ptr, 'w) state \<Rightarrow> ('w unique_ptr, 'w) state" where
  "call_deleter this p s =
     s\<lparr>world := operator_delete (objs s this) p (world s),
       trace := trace s @ [(this, p)],
       held_at_call := held_at_call s @ [ptr_resource (objs s this)]\<rparr>"

text \<open>
  \<^verbatim>\<open>explicit unique_ptr(T* raw_resource)\<close>, \<^verbatim>\<open>unique_ptr(std::nullptr_t)\<close> and
  \<^verbatim>\<open>unique_ptr()\<close>. The deleter member is default-constructed; \<open>d\<close> is that
  default-constructed value of the deleter type.
\<close>

definition construct :: "(ptr \<Rightarrow> 'w \<Rightarrow> 'w) \<Rightarrow> nat \<Rightarrow> ptr \<Rightarrow> ('w unique_ptr, 'w) state \<Rightarrow> ('w unique_ptr, 'w) state" where
  "construct d this raw_resource s =
     s\<lparr>objs := (objs s)(this := \<lparr>ptr_resource = raw_resource, operator_delete = d\<rparr>),
       live := this # live s\<rparr>"

definition construct_nullptr :: "(ptr \<Rightarrow> 'w \<Rightarrow> 'w) \<Rightarrow> nat \<Rightarrow> ('w unique_ptr, 'w) state \<Rightarrow> ('w unique_ptr, 'w) state" where
  "construct_nullptr d this s =
     s\<lparr>objs := (objs s)(this := \<lparr>ptr_resource = nullptr, operator_delete = d\<rparr>),
       live := this # live s\<rparr>"

definition construct_default :: "(ptr \<Rightarrow> 'w \<Rightarrow> 'w) \<Rightarrow> nat \<Rightarrow> ('w unique_ptr, 'w) state \<Rightarrow> ('w unique_ptr, 'w) state" where
  "construct_default d this s =
     s\<lparr>objs := (objs s)(this := \<lparr>ptr_resource = nullptr, operator_delete = d\<rparr>),
       live := this # live s\<rparr>"

text \<open>
  \<^verbatim>\<open>~unique_ptr()\<close>: \<^verbatim>\<open>operator_delete(ptr_resource)\<close>, whatever the pointer is;
  then the object's lifetime ends.
\<close>

definition destructor :: "nat \<Rightarrow> ('w unique_ptr, 'w) state \<Rightarrow> ('w unique_ptr, 'w) state" where
  "destructor this s =
     (let s1 = call_deleter this (rd s this) s
      in s1\<lparr>live := removeAll this (live s1)\<rparr>)"

text \<open>
  \<^verbatim>\<open>std::swap(a, b)\<close> on the pointer members of two objects:
  \<^verbatim>\<open>tmp = a; a = b; b = tmp\<close>, written out so that the case of one object
  under both names is the code's.
\<close>

definition std_swap :: "nat \<Rightarrow> nat \<Rightarrow> ('w unique_ptr, 'w) state \<Rightarrow> ('w unique_ptr, 'w) state" where
  "std_swap a b s =
     (let tmp = rd s a;
          s1 = wr a (rd s b) s;
          s2 = wr b tmp s1
      in s2)"

text \<open>
  \<^verbatim>\<open>void swap(unique_ptr<T>& resource_ptr)\<close>:
  \<^verbatim>\<open>std::swap(ptr_resource, resource_ptr.ptr_resource)\<close>. Only the pointers are
  exchanged; each object keeps its deleter member.
\<close>

definition swap :: "nat \<Rightarrow> nat \<Rightarrow> ('w unique_ptr, 'w) state \<Rightarrow> ('w unique_ptr, 'w) state" where
  "swap this resource_ptr s = std_swap this resource_ptr s"

text \<open>
  \<^verbatim>\<open>unique_ptr(unique_ptr&& move)\<close>: the members of the new object \<open>this\<close> are
  initialised by their defaults (\<^verbatim>\<open>ptr_resource = nullptr\<close>, a default-constructed
  deleter), then the body runs \<^verbatim>\<open>move.swap(*this)\<close>.
\<close>

definition move_construct :: "(ptr \<Rightarrow> 'w \<Rightarrow> 'w) \<Rightarrow> nat \<Rightarrow> nat \<Rightarrow> ('w unique_ptr, 'w) state \<Rightarrow> ('w unique_ptr, 'w) state" where
  "move_construct d this move s =
     (let s1 = s\<lparr>objs := (objs s)(this := \<lparr>ptr_resource = nullptr, operator_delete = d\<rparr>),
                 live := this # live s\<rparr>
      in swap move this s1)"

text \<open>\<^verbatim>\<open>unique_ptr& operator=(unique_ptr&& move)\<close>: \<^verbatim>\<open>move.swap(*this)\<close>.\<close>

definition move_assign :: "nat \<Rightarrow> nat \<Rightarrow> ('w unique_ptr, 'w) state \<Rightarrow> ('w unique_ptr, 'w) state" where
  "move_assign this move s = swap move this s"

text \<open>\<^verbatim>\<open>explicit operator bool() const\<close>: the pointer converted to bool.\<close>

definition operator_bool :: "('w unique_ptr, 'w) state \<Rightarrow> nat \<Rightarrow> bool" where
  "operator_bool s this = (rd s this \<noteq> nullptr)"

text \<open>
  \<^verbatim>\<open>T* release()\<close>: \<^verbatim>\<open>std::exchange(ptr_resource, nullptr)\<close> stores the new
  value and returns the old one.
\<close>

definition release :: "nat \<Rightarrow> ('w unique_ptr, 'w) state \<Rightarrow> ptr \<times> ('w unique_ptr, 'w) state" where
  "release this s =
     (let old_value = rd s this;
          s1 = wr this nullptr s
      in (old_value, s1))"

text \<open>\<^verbatim>\<open>T* get() const\<close>.\<close>

definition get :: "('w unique_ptr, 'w) state \<Rightarrow> nat \<Rightarrow> ptr" where
  "get s this = rd s this"

text \<open>
  \<^verbatim>\<open>void reset(T* resource_ptr)\<close>. The result pairs the exception thrown, if any,
  with the state the call leaves. The last statement swaps the member with the
  parameter, a local variable: the member takes the parameter's value, and the
  parameter (then dropped) the member's.
\<close>

definition reset :: "nat \<Rightarrow> ptr \<Rightarrow> ('w unique_ptr, 'w) state \<Rightarrow> exn option \<times> ('w unique_ptr, 'w) state" where
  "reset this resource_ptr s =
     (if resource_ptr = nullptr then (Some InvalidArgument, s)
      else
        let s1 = call_deleter this (rd s this) s;
            s2 = wr this nullptr s1;
            tmp = rd s2 this;
            s3 = wr this resource_ptr s2
        in (None, s3))"

text \<open>
  \<^verbatim>\<open>T* operator->()\<close> returns the pointer. \<^verbatim>\<open>T& operator*()\<close> returns the
  object the pointer refers to, by its address; on a null pointer the behaviour is
  undefined, which is \<open>None\<close>.
\<close>

definition operator_arrow :: "('w unique_ptr, 'w) state \<Rightarrow> nat \<Rightarrow> ptr" where
  "operator_arrow s this = rd s this"

definition operator_star :: "('w unique_ptr, 'w) state \<Rightarrow> nat \<Rightarrow> nat option" where
  "operator_star s this = (case rd s this of nullptr \<Rightarrow> None | Addr a \<Rightarrow> Some a)"

section \<open>The default deleter and the simplified variant \<^verbatim>\<open>unique_ptr<T>\<close>\<close>

text \<open>
  The default deleter and the simplified variant use the delete-expression, which acts
  on the free store: the set of addresses allocated and not yet deleted.
  \<^verbatim>\<open>delete nullptr\<close> does nothing; deleting an address that is not allocated
  (a second \<^verbatim>\<open>delete\<close> of one pointer) is undefined behaviour, which the flag
  records.
\<close>

record heap =
  allocated :: "nat set"
  undefined_behaviour :: bool

fun cxx_delete :: "ptr \<Rightarrow> heap \<Rightarrow> heap" where
  "cxx_delete nullptr hp = hp"
| "cxx_delete (Addr a) hp =
     (if a \<in> allocated hp then hp\<lparr>allocated := allocated hp - {a}\<rparr>
      else hp\<lparr>undefined_behaviour := True\<rparr>)"

text \<open>\<^verbatim>\<open>unique_ptr_deleter<T>::operator()(T* resource)\<close>: \<^verbatim>\<open>delete resource\<close>.\<close>

definition unique_ptr_deleter :: "ptr \<Rightarrow> heap \<Rightarrow> heap" where
  "unique_ptr_deleter resource hp = cxx_delete resource hp"

definition rd_s :: "(unique_ptr_s, heap) state \<Rightarrow> nat \<Rightarrow> ptr" where
  "rd_s s this = ptr_resource_s (objs s this)"

definition wr_s :: "nat \<Rightarrow> ptr \<Rightarrow> (unique_ptr_s, heap) state \<Rightarrow> (unique_ptr_s, heap) state" where
  "wr_s this p s = s\<lparr>objs := (objs s)(this := (objs s this)\<lparr>ptr_resource_s := p\<rparr>)\<rparr>"

text \<open>
  The statement \<^verbatim>\<open>delete p\<close> executed inside the object \<open>this\<close>: the fixed
  deletion policy of the simplified variant, recorded like a deleter call.
\<close>

definition delete_s :: "nat \<Rightarrow> ptr \<Rightarrow> (unique_ptr_s, heap) state \<Rightarrow> (unique_ptr_s, heap) state" where
  "delete_s this p s =
     s\<lparr>world := cxx_delete p (world s),
       trace := trace s @ [(this, p)],
       held_at_call := held_at_call s @ [ptr_resource_s (objs s this)]\<rparr>"

definition construct_s :: "nat \<Rightarrow> ptr \<Rightarrow> (unique_ptr_s, heap) state \<Rightarrow> (unique_ptr_s, heap) state" where
  "construct_s this raw_resource s =
     s\<lparr>objs := (objs s)(this := \<lparr>ptr_resource_s = raw_resource\<rparr>),
       live := this # live s\<rparr>"

definition construct_nullptr_s :: "nat \<Rightarrow> (unique_ptr_s, heap) state \<Rightarrow> (unique_ptr_s, heap) state" where
  "construct_nullptr_s this s =
     s\<lparr>objs := (objs s)(this := \<lparr>ptr_resource_s = nullptr\<rparr>),
       live := this # live s\<rparr>"

text \<open>\<^verbatim>\<open>~unique_ptr()\<close>: \<^verbatim>\<open>delete ptr_resource\<close>.\<close>

definition destructor_s :: "nat \<Rightarrow> (unique_ptr_s, heap) state \<Rightarrow> (unique_ptr_s, heap) state" where
  "destructor_s this s =
     (let s1 = delete_s this (rd_s s this) s
      in s1\<lparr>live := removeAll this (live s1)\<rparr>)"

text \<open>
  \<^verbatim>\<open>T* release()\<close>: \<^verbatim>\<open>T* resource_ptr = this->ptr_resource;
  this->ptr_resource = nullptr; return resource_ptr;\<close>
\<close>

definition release_s :: "nat \<Rightarrow> (unique_ptr_s, heap) state \<Rightarrow> ptr \<times> (unique_ptr_s, heap) state" where
  "release_s this s =
     (let resource_ptr = rd_s s this;
          s1 = wr_s this nullptr s
      in (resource_ptr, s1))"

definition get_s :: "(unique_ptr_s, heap) state \<Rightarrow> nat \<Rightarrow> ptr" where
  "get_s s this = rd_s s this"

text \<open>
  \<^verbatim>\<open>void swap(const unique_ptr& resource_ptr)\<close>, with the body
  \<^verbatim>\<open>std::swap(ptr_resource, resource_ptr.ptr_resource)\<close>, has no definition here.
  Its parameter is a reference to \<^verbatim>\<open>const\<close>, so the second argument of
  \<^verbatim>\<open>std::swap\<close> is a \<^verbatim>\<open>T* const\<close> lvalue beside the \<^verbatim>\<open>T*\<close> lvalue of the
  first; \<^verbatim>\<open>std::swap\<close> takes two non-const references of one type, so the body is
  ill-formed in every instantiation and no program can call this member function.
  The simplified variant therefore provides no swap.
\<close>

definition reset_s :: "nat \<Rightarrow> ptr \<Rightarrow> (unique_ptr_s, heap) state \<Rightarrow> exn option \<times> (unique_ptr_s, heap) state" where
  "reset_s this resource_ptr s =
     (if resource_ptr = nullptr then (Some InvalidArgument, s)
      else
        let s1 = delete_s this (rd_s s this) s;
            s2 = wr_s this nullptr s1;
            tmp = rd_s s2 this;
            s3 = wr_s this resource_ptr s2
        in (None, s3))"

definition operator_arrow_s :: "(unique_ptr_s, heap) state \<Rightarrow> nat \<Rightarrow> ptr" where
  "operator_arrow_s s this = rd_s s this"

definition operator_star_s :: "(unique_ptr_s, heap) state \<Rightarrow> nat \<Rightarrow> nat option" where
  "operator_star_s s this = (case rd_s s this of nullptr \<Rightarrow> None | Addr a \<Rightarrow> Some a)"

text \<open>
  A state of the simplified variant seen as a state of the general variant
  instantiated with the default deleter: the same pointers, every deleter member the
  default deleter.
\<close>

definition to_general :: "(unique_ptr_s, heap) state \<Rightarrow> (heap unique_ptr, heap) state" where
  "to_general s =
     \<lparr>objs = (\<lambda>h. \<lparr>ptr_resource = ptr_resource_s (objs s h), operator_delete = unique_ptr_deleter\<rparr>),
      live = live s, world = world s, trace = trace s, held_at_call = held_at_call s\<rparr>"

section \<open>Client programs\<close>

text \<open>
  A client program is a finite sequence of operations on handle objects. A \<open>Reset\<close>
  that throws is caught by the client, which goes on in the state the throw left; the
  pointer a \<open>Release\<close> returns goes to the client.
\<close>

datatype op =
    Construct nat ptr
  | ConstructNull nat
  | ConstructDefault nat
  | MoveConstruct nat nat
  | MoveAssign nat nat
  | Reset nat ptr
  | Release nat
  | Swap nat nat
  | Destroy nat

fun exec :: "(ptr \<Rightarrow> 'w \<Rightarrow> 'w) \<Rightarrow> op \<Rightarrow> ('w unique_ptr, 'w) state \<Rightarrow> ('w unique_ptr, 'w) state" where
  "exec d (Construct h p) s = construct d h p s"
| "exec d (ConstructNull h) s = construct_nullptr d h s"
| "exec d (ConstructDefault h) s = construct_default d h s"
| "exec d (MoveConstruct h src) s = move_construct d h src s"
| "exec d (MoveAssign h src) s = move_assign h src s"
| "exec d (Reset h p) s = snd (reset h p s)"
| "exec d (Release h) s = snd (release h s)"
| "exec d (Swap a b) s = swap a b s"
| "exec d (Destroy h) s = destructor h s"

fun exec_all :: "(ptr \<Rightarrow> 'w \<Rightarrow> 'w) \<Rightarrow> op list \<Rightarrow> ('w unique_ptr, 'w) state \<Rightarrow> ('w unique_ptr, 'w) state" where
  "exec_all d [] s = s"
| "exec_all d (x # xs) s = exec_all d xs (exec d x s)"

text \<open>
  What the language itself imposes on a client: a constructor runs on an object that
  is not alive, every other member function on objects that are.
\<close>

fun scoped :: "op \<Rightarrow> ('o, 'w) state \<Rightarrow> bool" where
  "scoped (Construct h p) s = (h \<notin> set (live s))"
| "scoped (ConstructNull h) s = (h \<notin> set (live s))"
| "scoped (ConstructDefault h) s = (h \<notin> set (live s))"
| "scoped (MoveConstruct h src) s = (h \<notin> set (live s) \<and> src \<in> set (live s))"
| "scoped (MoveAssign h src) s = (h \<in> set (live s) \<and> src \<in> set (live s))"
| "scoped (Reset h p) s = (h \<in> set (live s))"
| "scoped (Release h) s = (h \<in> set (live s))"
| "scoped (Swap a b) s = (a \<in> set (live s) \<and> b \<in> set (live s))"
| "scoped (Destroy h) s = (h \<in> set (live s))"

fun well_scoped :: "(ptr \<Rightarrow> 'w \<Rightarrow> 'w) \<Rightarrow> op list \<Rightarrow> ('w unique_ptr, 'w) state \<Rightarrow> bool" where
  "well_scoped d [] s = True"
| "well_scoped d (x # xs) s = (scoped x s \<and> well_scoped d xs (exec d x s))"

text \<open>
  The caller's side of the ownership contract, which the code does not check: a
  non-null reference handed to a constructor or to \<open>reset\<close> is held by no live handle
  and has not been passed to the deleter.
\<close>

definition unowned :: "ptr \<Rightarrow> ('w unique_ptr, 'w) state \<Rightarrow> bool" where
  "unowned p s =
     (p = nullptr \<or> (list_all (\<lambda>h. rd s h \<noteq> p) (live s) \<and> p \<notin> set (map snd (trace s))))"

fun hands_over :: "op \<Rightarrow> ptr \<Rightarrow> bool" where
  "hands_over (Construct h p) q = (p = q)"
| "hands_over (Reset h p) q = (p = q)"
| "hands_over x q = False"

fun contract :: "op \<Rightarrow> ('w unique_ptr, 'w) state \<Rightarrow> bool" where
  "contract (Construct h p) s = unowned p s"
| "contract (Reset h p) s = unowned p s"
| "contract x s = True"

fun respects_contract :: "(ptr \<Rightarrow> 'w \<Rightarrow> 'w) \<Rightarrow> op list \<Rightarrow> ('w unique_ptr, 'w) state \<Rightarrow> bool" where
  "respects_contract d [] s = True"
| "respects_contract d (x # xs) s = (contract x s \<and> respects_contract d xs (exec d x s))"

text \<open>The state of a program before its first operation.\<close>

definition init :: "(nat \<Rightarrow> 'o) \<Rightarrow> 'w \<Rightarrow> ('o, 'w) state" where
  "init m w = \<lparr>objs = m, live = [], world = w, trace = [], held_at_call = []\<rparr>"

text \<open>
  Exclusive ownership: no two live handles hold the same non-null pointer.
\<close>

definition exclusive :: "('w unique_ptr, 'w) state \<Rightarrow> bool" where
  "exclusive s =
     list_all (\<lambda>h. list_all (\<lambda>h'. h = h' \<or> rd s h = nullptr \<or> rd s h \<noteq> rd s h') (live s)) (live s)"

text \<open>
  The ownership invariant of a program state: live handles own exclusively, no live
  handle holds a reference already passed to the deleter, and no non-null reference
  was passed to the deleter twice.
\<close>

definition ownership_invariant :: "('w unique_ptr, 'w) state \<Rightarrow> bool" where
  "ownership_invariant s =
     (exclusive s \<and>
      list_all (\<lambda>h. rd s h = nullptr \<or> rd s h \<notin> set (map snd (trace s))) (live s) \<and>
      distinct (filter (\<lambda>p. p \<noteq> nullptr) (map snd (trace s))))"

text \<open>
  Client programs of the simplified variant, which has no default constructor, no
  move operations and no swap that can be called, and each operation as the operation
  of the general variant that the same source text denotes there.
\<close>

datatype op_s =
    Construct_s nat ptr
  | ConstructNull_s nat
  | Reset_s nat ptr
  | Release_s nat
  | Destroy_s nat

fun exec_s :: "op_s \<Rightarrow> (unique_ptr_s, heap) state \<Rightarrow> (unique_ptr_s, heap) state" where
  "exec_s (Construct_s h p) s = construct_s h p s"
| "exec_s (ConstructNull_s h) s = construct_nullptr_s h s"
| "exec_s (Reset_s h p) s = snd (reset_s h p s)"
| "exec_s (Release_s h) s = snd (release_s h s)"
| "exec_s (Destroy_s h) s = destructor_s h s"

fun exec_all_s :: "op_s list \<Rightarrow> (unique_ptr_s, heap) state \<Rightarrow> (unique_ptr_s, heap) state" where
  "exec_all_s [] s = s"
| "exec_all_s (x # xs) s = exec_all_s xs (exec_s x s)"

fun as_general :: "op_s \<Rightarrow> op" where
  "as_general (Construct_s h p) = Construct h p"
| "as_general (ConstructNull_s h) = ConstructNull h"
| "as_general (Reset_s h p) = Reset h p"
| "as_general (Release_s h) = Release h"
| "as_general (Destroy_s h) = Destroy h"

text \<open>
  Storage in which no object has been constructed yet (its content is never read
  before a constructor writes it), and a free store with two allocations, for the
  concrete runs below.
\<close>

definition no_objects :: "nat \<Rightarrow> heap unique_ptr" where
  "no_objects h = \<lparr>ptr_resource = nullptr, operator_delete = unique_ptr_deleter\<rparr>"

definition no_objects_s :: "nat \<Rightarrow> unique_ptr_s" where
  "no_objects_s h = \<lparr>ptr_resource_s = nullptr\<rparr>"

definition two_allocations :: heap where
  "two_allocations = \<lparr>allocated = {1, 2}, undefined_behaviour = False\<rparr>"

text \<open>One live handle, object 0, owning allocation 1: in the general variant with the
  default deleter, and in the simplified variant.\<close>

definition one_owner :: "(heap unique_ptr, heap) state" where
  "one_owner = construct unique_ptr_deleter 0 (Addr 1) (init no_objects two_allocations)"

definition one_owner_s :: "(unique_ptr_s, heap) state" where
  "one_owner_s = construct_s 0 (Addr 1) (init no_objects_s two_allocations)"

section \<open>What each call does to the pointers, the live objects and the trace\<close>

lemma rd_wr [simp]: "rd (wr h p s) h' = (if h' = h then p else rd s h')"
  by (simp add: rd_def wr_def)

lemma wr_fields [simp]:
  "live (wr h p s) = live s" "world (wr h p s) = world s" "trace (wr h p s) = trace s"
  "held_at_call (wr h p s) = held_at_call s"
  by (simp_all add: wr_def)

lemma call_deleter_fields [simp]:
  "rd (call_deleter h p s) h' = rd s h'"
  "live (call_deleter h p s) = live s"
  "trace (call_deleter h p s) = trace s @ [(h, p)]"
  "world (call_deleter h p s) = operator_delete (objs s h) p (world s)"
  "held_at_call (call_deleter h p s) = held_at_call s @ [rd s h]"
  by (simp_all add: call_deleter_def rd_def)

lemma wr_wr [simp]: "wr h q (wr h p s) = wr h q s"
  by (simp add: wr_def)

lemma wr_same [simp]: "wr h (rd s h) s = s"
  by (simp add: wr_def rd_def)

lemma construct_fields [simp]:
  "rd (construct d h p s) h' = (if h' = h then p else rd s h')"
  "live (construct d h p s) = h # live s"
  "trace (construct d h p s) = trace s"
  "world (construct d h p s) = world s"
  by (simp_all add: construct_def rd_def)

lemma construct_nullptr_eq: "construct_nullptr d h s = construct d h nullptr s"
  by (simp add: construct_nullptr_def construct_def)

lemma construct_default_eq: "construct_default d h s = construct d h nullptr s"
  by (simp add: construct_default_def construct_def)

lemma destructor_fields [simp]:
  "rd (destructor h s) h' = rd s h'"
  "live (destructor h s) = removeAll h (live s)"
  "trace (destructor h s) = trace s @ [(h, rd s h)]"
  "world (destructor h s) = operator_delete (objs s h) (rd s h) (world s)"
  by (simp_all add: destructor_def Let_def rd_def call_deleter_def)

lemma swap_fields [simp]:
  "rd (swap a b s) h = (if h = b then rd s a else if h = a then rd s b else rd s h)"
  "live (swap a b s) = live s"
  "trace (swap a b s) = trace s"
  "world (swap a b s) = world s"
  by (simp_all add: swap_def std_swap_def Let_def)

lemma move_construct_eq: "move_construct d this mv s = swap mv this (construct d this nullptr s)"
  by (simp add: move_construct_def construct_def Let_def)

lemma move_assign_fields [simp]:
  "rd (move_assign this mv s) h = (if h = this then rd s mv else if h = mv then rd s this else rd s h)"
  "live (move_assign this mv s) = live s"
  "trace (move_assign this mv s) = trace s"
  "world (move_assign this mv s) = world s"
  by (simp_all add: move_assign_def)

lemma release_fields [simp]:
  "fst (release h s) = rd s h"
  "rd (snd (release h s)) h' = (if h' = h then nullptr else rd s h')"
  "live (snd (release h s)) = live s"
  "trace (snd (release h s)) = trace s"
  "world (snd (release h s)) = world s"
  by (simp_all add: release_def Let_def)

lemma reset_fields [simp]:
  "rd (snd (reset h p s)) h' = (if p \<noteq> nullptr \<and> h' = h then p else rd s h')"
  "live (snd (reset h p s)) = live s"
  "trace (snd (reset h p s)) = (if p = nullptr then trace s else trace s @ [(h, rd s h)])"
  by (simp_all add: reset_def Let_def)

lemma reset_world [simp]:
  "world (snd (reset h p s)) =
     (if p = nullptr then world s else operator_delete (objs s h) (rd s h) (world s))"
  "held_at_call (snd (reset h p s)) =
     (if p = nullptr then held_at_call s else held_at_call s @ [rd s h])"
  by (simp_all add: reset_def Let_def)

lemma one_owner_fields [simp]:
  "rd one_owner h = (if h = 0 then Addr 1 else nullptr)"
  "live one_owner = [0]"
  "trace one_owner = []"
  "world one_owner = two_allocations"
  "held_at_call one_owner = []"
  "operator_delete (objs one_owner h) = unique_ptr_deleter"
  by (simp_all add: one_owner_def init_def construct_def rd_def no_objects_def)

subsection \<open>The simplified variant\<close>

lemma rd_s_wr_s [simp]: "rd_s (wr_s h p s) h' = (if h' = h then p else rd_s s h')"
  by (simp add: rd_s_def wr_s_def)

lemma wr_s_fields [simp]:
  "live (wr_s h p s) = live s" "world (wr_s h p s) = world s" "trace (wr_s h p s) = trace s"
  "held_at_call (wr_s h p s) = held_at_call s"
  by (simp_all add: wr_s_def)

lemma delete_s_fields [simp]:
  "rd_s (delete_s h p s) h' = rd_s s h'"
  "live (delete_s h p s) = live s"
  "trace (delete_s h p s) = trace s @ [(h, p)]"
  "world (delete_s h p s) = cxx_delete p (world s)"
  "held_at_call (delete_s h p s) = held_at_call s @ [rd_s s h]"
  by (simp_all add: delete_s_def rd_s_def)

lemma wr_s_wr_s [simp]: "wr_s h q (wr_s h p s) = wr_s h q s"
  by (simp add: wr_s_def)

lemma construct_s_fields [simp]:
  "rd_s (construct_s h p s) h' = (if h' = h then p else rd_s s h')"
  "live (construct_s h p s) = h # live s"
  "trace (construct_s h p s) = trace s"
  "world (construct_s h p s) = world s"
  by (simp_all add: construct_s_def rd_s_def)

lemma construct_nullptr_s_eq: "construct_nullptr_s h s = construct_s h nullptr s"
  by (simp add: construct_nullptr_s_def construct_s_def)

lemma destructor_s_fields [simp]:
  "rd_s (destructor_s h s) h' = rd_s s h'"
  "live (destructor_s h s) = removeAll h (live s)"
  "trace (destructor_s h s) = trace s @ [(h, rd_s s h)]"
  "world (destructor_s h s) = cxx_delete (rd_s s h) (world s)"
  by (simp_all add: destructor_s_def delete_s_def rd_s_def Let_def)

lemma release_s_fields [simp]:
  "fst (release_s h s) = rd_s s h"
  "rd_s (snd (release_s h s)) h' = (if h' = h then nullptr else rd_s s h')"
  "live (snd (release_s h s)) = live s"
  "trace (snd (release_s h s)) = trace s"
  "world (snd (release_s h s)) = world s"
  by (simp_all add: release_s_def Let_def)

lemma reset_s_fields [simp]:
  "rd_s (snd (reset_s h p s)) h' = (if p \<noteq> nullptr \<and> h' = h then p else rd_s s h')"
  "live (snd (reset_s h p s)) = live s"
  "trace (snd (reset_s h p s)) = (if p = nullptr then trace s else trace s @ [(h, rd_s s h)])"
  by (simp_all add: reset_s_def Let_def)

lemma reset_s_world [simp]:
  "world (snd (reset_s h p s)) =
     (if p = nullptr then world s else cxx_delete (rd_s s h) (world s))"
  "held_at_call (snd (reset_s h p s)) =
     (if p = nullptr then held_at_call s else held_at_call s @ [rd_s s h])"
  by (simp_all add: reset_s_def Let_def)

lemma one_owner_s_fields [simp]:
  "rd_s one_owner_s h = (if h = 0 then Addr 1 else nullptr)"
  "live one_owner_s = [0]"
  "trace one_owner_s = []"
  "world one_owner_s = two_allocations"
  "held_at_call one_owner_s = []"
  by (simp_all add: one_owner_s_def init_def construct_s_def rd_s_def no_objects_s_def)

lemma to_general_fields [simp]:
  "rd (to_general t) h = rd_s t h"
  "live (to_general t) = live t"
  "trace (to_general t) = trace t"
  "world (to_general t) = world t"
  "held_at_call (to_general t) = held_at_call t"
  by (simp_all add: to_general_def rd_def rd_s_def)

text \<open>
  Every operation of the simplified variant is the same operation of the general
  variant with the default deleter, on single operations and on whole programs.
\<close>

lemma exec_s_refines:
  "to_general (exec_s x t) = exec unique_ptr_deleter (as_general x) (to_general t)"
  by (cases x)
     (auto simp add: to_general_def construct_s_def construct_def construct_nullptr_s_def
        construct_nullptr_def rd_s_def rd_def release_s_def release_def wr_s_def wr_def
        reset_s_def reset_def delete_s_def call_deleter_def unique_ptr_deleter_def
        destructor_s_def destructor_def Let_def fun_eq_iff)

lemma exec_all_s_refines:
  "to_general (exec_all_s xs t) = exec_all unique_ptr_deleter (map as_general xs) (to_general t)"
  by (induction xs arbitrary: t) (simp_all add: exec_s_refines)

section \<open>The ownership invariant\<close>

lemma count_list_distinct_filter:
  "distinct (filter P xs) \<Longrightarrow> P x \<Longrightarrow> count_list xs x \<le> 1"
  by (induction xs) (auto simp: count_list_0_iff split: if_splits)

lemma invariant_exec:
  "scoped x s \<Longrightarrow> contract x s \<Longrightarrow> ownership_invariant s \<Longrightarrow> ownership_invariant (exec d x s)"
  by (cases x)
     (auto simp: ownership_invariant_def exclusive_def unowned_def list_all_iff
        construct_nullptr_eq construct_default_eq move_construct_eq split: if_splits)

lemma invariant_exec_all:
  "well_scoped d xs s \<Longrightarrow> respects_contract d xs s \<Longrightarrow> ownership_invariant s
    \<Longrightarrow> ownership_invariant (exec_all d xs s)"
  by (induction xs arbitrary: s) (auto simp: invariant_exec)

lemma invariant_init: "ownership_invariant (init m w)"
  by (simp add: ownership_invariant_def exclusive_def init_def)

lemma invariant_at_most_once:
  assumes "ownership_invariant s"
  shows "count_list (map snd (trace s)) (Addr r) \<le> 1"
    and "h \<in> set (live s) \<Longrightarrow> rd s h = Addr r \<Longrightarrow> count_list (map snd (trace s)) (Addr r) = 0"
proof -
  from assms have "distinct (filter (\<lambda>p. p \<noteq> nullptr) (map snd (trace s)))"
    by (simp add: ownership_invariant_def)
  then show "count_list (map snd (trace s)) (Addr r) \<le> 1"
    by (rule count_list_distinct_filter) simp
next
  assume "h \<in> set (live s)" "rd s h = Addr r"
  with assms have "Addr r \<notin> set (map snd (trace s))"
    by (force simp: ownership_invariant_def list_all_iff)
  then show "count_list (map snd (trace s)) (Addr r) = 0"
    by (simp add: count_list_0_iff)
qed

text \<open>
  A non-null reference that no live handle holds stays unheld, and is not passed to
  the deleter, as long as no operation hands it to a handle.
\<close>

lemma not_held_exec:
  assumes "r \<noteq> nullptr" "list_all (\<lambda>h. rd s h \<noteq> r) (live s)" "scoped x s" "\<not> hands_over x r"
  shows "list_all (\<lambda>h. rd (exec d x s) h \<noteq> r) (live (exec d x s)) \<and>
         (\<exists>evs. trace (exec d x s) = trace s @ evs \<and> r \<notin> set (map snd evs))"
  using assms
  by (cases x)
     (auto simp: list_all_iff construct_nullptr_eq construct_default_eq move_construct_eq
        split: if_splits)

lemma not_held_exec_all:
  assumes "r \<noteq> nullptr"
  shows "list_all (\<lambda>h. rd s h \<noteq> r) (live s) \<Longrightarrow> well_scoped d xs s
    \<Longrightarrow> list_all (\<lambda>x. \<not> hands_over x r) xs
    \<Longrightarrow> \<exists>evs. trace (exec_all d xs s) = trace s @ evs \<and> r \<notin> set (map snd evs)"
proof (induction xs arbitrary: s)
  case Nil
  then show ?case by simp
next
  case (Cons x xs)
  from Cons.prems have sc: "scoped x s" and nh: "\<not> hands_over x r" by simp_all
  from not_held_exec [OF assms Cons.prems(1) sc nh, of d]
  obtain evs1 where
    held: "list_all (\<lambda>h. rd (exec d x s) h \<noteq> r) (live (exec d x s))" and
    tr1: "trace (exec d x s) = trace s @ evs1" and fr1: "r \<notin> set (map snd evs1)"
    by blast
  from Cons.IH [OF held] Cons.prems obtain evs2 where
    tr2: "trace (exec_all d xs (exec d x s)) = trace (exec d x s) @ evs2" and
    fr2: "r \<notin> set (map snd evs2)"
    by auto
  have "trace (exec_all d (x # xs) s) = trace s @ (evs1 @ evs2)"
    using tr1 tr2 by simp
  moreover have "r \<notin> set (map snd (evs1 @ evs2))"
    using fr1 fr2 by simp
  ultimately show ?case by blast
qed

section \<open>The claims\<close>

text \<open>
  C1, as amended. Take any program, of either variant, in which the client keeps the
  ownership contract: each non-null reference handed to a constructor or to
  \<open>reset\<close> is at that moment held by no live handle and has not been passed to the
  deletion policy. Then the policy is called on any given non-null reference at most
  once in the whole run, and destroying a live handle that holds \<open>R\<close> calls the policy
  on \<open>R\<close>, which makes exactly one call on \<open>R\<close> overall.
\<close>

theorem deleter_called_at_most_once:
  assumes "well_scoped d xs (init m w)"
    and "respects_contract d xs (init m w)"
    and "well_scoped unique_ptr_deleter (map as_general ys) (to_general (init m' hp))"
    and "respects_contract unique_ptr_deleter (map as_general ys) (to_general (init m' hp))"
  shows
  "count_list (map snd (trace (exec_all d xs (init m w)))) (Addr r) \<le> 1 \<and>
   (h \<in> set (live (exec_all d xs (init m w))) \<and> get (exec_all d xs (init m w)) h = Addr r \<longrightarrow>
      trace (destructor h (exec_all d xs (init m w))) =
        trace (exec_all d xs (init m w)) @ [(h, Addr r)] \<and>
      count_list (map snd (trace (destructor h (exec_all d xs (init m w))))) (Addr r) = 1) \<and>
   count_list (map snd (trace (exec_all_s ys (init m' hp)))) (Addr r) \<le> 1 \<and>
   (h \<in> set (live (exec_all_s ys (init m' hp))) \<and> get_s (exec_all_s ys (init m' hp)) h = Addr r \<longrightarrow>
      trace (destructor_s h (exec_all_s ys (init m' hp))) =
        trace (exec_all_s ys (init m' hp)) @ [(h, Addr r)] \<and>
      count_list (map snd (trace (destructor_s h (exec_all_s ys (init m' hp))))) (Addr r) = 1)"
proof -
  have inv: "ownership_invariant (exec_all d xs (init m w))"
    using assms(1,2) invariant_init by (rule invariant_exec_all)
  have "ownership_invariant (to_general (init m' hp))"
    by (simp add: ownership_invariant_def exclusive_def init_def)
  with assms(3,4) have "ownership_invariant (to_general (exec_all_s ys (init m' hp)))"
    unfolding exec_all_s_refines by (rule invariant_exec_all)
  from invariant_at_most_once(1) [OF this, of r] invariant_at_most_once(2) [OF this, of h r]
    invariant_at_most_once(1) [OF inv, of r] invariant_at_most_once(2) [OF inv, of h r]
  show ?thesis by (simp add: get_def get_s_def)
qed

text \<open>
  The theorem at two concrete programs. General variant: handle 0 takes allocation 1,
  handle 1 is move-constructed from it, is reset to allocation 2, and handle 0 is
  destroyed; handle 1 then holds allocation 2. Simplified variant: handle 0 takes
  allocation 1, a null-constructed handle 1 is reset to allocation 2, and handle 0 is
  destroyed.
\<close>

theorem deleter_called_at_most_once_witness:
  "well_scoped unique_ptr_deleter
     [Construct 0 (Addr 1), MoveConstruct 1 0, Reset 1 (Addr 2), Destroy 0]
     (init no_objects two_allocations) \<and>
   respects_contract unique_ptr_deleter
     [Construct 0 (Addr 1), MoveConstruct 1 0, Reset 1 (Addr 2), Destroy 0]
     (init no_objects two_allocations) \<and>
   well_scoped unique_ptr_deleter
     (map as_general [Construct_s 0 (Addr 1), ConstructNull_s 1, Reset_s 1 (Addr 2), Destroy_s 0])
     (to_general (init no_objects_s two_allocations)) \<and>
   respects_contract unique_ptr_deleter
     (map as_general [Construct_s 0 (Addr 1), ConstructNull_s 1, Reset_s 1 (Addr 2), Destroy_s 0])
     (to_general (init no_objects_s two_allocations)) \<and>
   count_list (map snd (trace (exec_all unique_ptr_deleter
     [Construct 0 (Addr 1), MoveConstruct 1 0, Reset 1 (Addr 2), Destroy 0]
     (init no_objects two_allocations)))) (Addr 2) \<le> 1 \<and>
   1 \<in> set (live (exec_all unique_ptr_deleter
     [Construct 0 (Addr 1), MoveConstruct 1 0, Reset 1 (Addr 2), Destroy 0]
     (init no_objects two_allocations))) \<and>
   get (exec_all unique_ptr_deleter
     [Construct 0 (Addr 1), MoveConstruct 1 0, Reset 1 (Addr 2), Destroy 0]
     (init no_objects two_allocations)) 1 = Addr 2 \<and>
   count_list (map snd (trace (destructor 1 (exec_all unique_ptr_deleter
     [Construct 0 (Addr 1), MoveConstruct 1 0, Reset 1 (Addr 2), Destroy 0]
     (init no_objects two_allocations))))) (Addr 2) = 1 \<and>
   1 \<in> set (live (exec_all_s
     [Construct_s 0 (Addr 1), ConstructNull_s 1, Reset_s 1 (Addr 2), Destroy_s 0]
     (init no_objects_s two_allocations))) \<and>
   get_s (exec_all_s
     [Construct_s 0 (Addr 1), ConstructNull_s 1, Reset_s 1 (Addr 2), Destroy_s 0]
     (init no_objects_s two_allocations)) 1 = Addr 2 \<and>
   count_list (map snd (trace (destructor_s 1 (exec_all_s
     [Construct_s 0 (Addr 1), ConstructNull_s 1, Reset_s 1 (Addr 2), Destroy_s 0]
     (init no_objects_s two_allocations))))) (Addr 2) = 1"
proof -
  let ?xs = "[Construct 0 (Addr 1), MoveConstruct 1 0, Reset 1 (Addr 2), Destroy 0]"
  let ?ys = "[Construct_s 0 (Addr 1), ConstructNull_s 1, Reset_s 1 (Addr 2), Destroy_s 0]"
  have init_fields:
    "live (init no_objects two_allocations) = []" "trace (init no_objects two_allocations) = []"
    "live (init no_objects_s two_allocations) = []" "trace (init no_objects_s two_allocations) = []"
    by (simp_all add: init_def)
  have ws: "well_scoped unique_ptr_deleter ?xs (init no_objects two_allocations)"
    by (simp add: init_fields move_construct_eq)
  have rc: "respects_contract unique_ptr_deleter ?xs (init no_objects two_allocations)"
    by (simp add: init_fields move_construct_eq unowned_def)
  have ws_s: "well_scoped unique_ptr_deleter (map as_general ?ys)
      (to_general (init no_objects_s two_allocations))"
    by (simp add: init_fields construct_nullptr_eq)
  have rc_s: "respects_contract unique_ptr_deleter (map as_general ?ys)
      (to_general (init no_objects_s two_allocations))"
    by (simp add: init_fields construct_nullptr_eq unowned_def)
  have fin: "1 \<in> set (live (exec_all unique_ptr_deleter ?xs (init no_objects two_allocations)))"
    "get (exec_all unique_ptr_deleter ?xs (init no_objects two_allocations)) 1 = Addr 2"
    by (simp_all add: init_fields move_construct_eq get_def)
  have fin_s: "1 \<in> set (live (exec_all_s ?ys (init no_objects_s two_allocations)))"
    "get_s (exec_all_s ?ys (init no_objects_s two_allocations)) 1 = Addr 2"
    by (simp_all add: init_fields get_s_def construct_nullptr_s_eq)
  from deleter_called_at_most_once [OF ws rc ws_s rc_s, of 2 1] ws rc ws_s rc_s fin fin_s
  show ?thesis by simp
qed

text \<open>
  C1 as stated, for every sequence of operations, fails: a handle reset to the
  reference it already holds (\<^verbatim>\<open>h.reset(h.get())\<close>) passes that reference to the
  deleter, keeps it, and passes it again when destroyed. With the default deleter the
  second call deletes an address no longer allocated.
\<close>

theorem deleter_called_twice_counterexample:
  "well_scoped unique_ptr_deleter [Construct 0 (Addr 1), Reset 0 (Addr 1), Destroy 0]
     (init no_objects two_allocations) \<and>
   trace (exec_all unique_ptr_deleter [Construct 0 (Addr 1), Reset 0 (Addr 1), Destroy 0]
     (init no_objects two_allocations)) = [(0, Addr 1), (0, Addr 1)] \<and>
   count_list (map snd (trace (exec_all unique_ptr_deleter
     [Construct 0 (Addr 1), Reset 0 (Addr 1), Destroy 0]
     (init no_objects two_allocations)))) (Addr 1) = 2 \<and>
   undefined_behaviour (world (exec_all unique_ptr_deleter
     [Construct 0 (Addr 1), Reset 0 (Addr 1), Destroy 0]
     (init no_objects two_allocations)))"
  by (simp add: init_def construct_def reset_def destructor_def call_deleter_def rd_def wr_def
       unique_ptr_deleter_def two_allocations_def Let_def)

text \<open>
  C2. In both variants, for any handle and any deleter, \<^verbatim>\<open>reset(nullptr)\<close> throws
  \<^verbatim>\<open>std::invalid_argument\<close> and leaves the whole state as it was: the handle's
  pointer is the one it had, and the trace of deleter calls has not grown.
\<close>

theorem reset_nullptr_throws:
  "fst (reset this nullptr s) = Some InvalidArgument \<and>
   snd (reset this nullptr s) = s \<and>
   get (snd (reset this nullptr s)) this = get s this \<and>
   trace (snd (reset this nullptr s)) = trace s \<and>
   fst (reset_s this nullptr t) = Some InvalidArgument \<and>
   snd (reset_s this nullptr t) = t \<and>
   get_s (snd (reset_s this nullptr t)) this = get_s t this \<and>
   trace (snd (reset_s this nullptr t)) = trace t"
  by (simp add: reset_def reset_s_def)

text \<open>
  C3. In both variants, \<open>reset\<close> with a non-null reference does not throw; it makes
  exactly one deleter call, on the pointer the handle held; at the moment of that
  call the handle still holds the old pointer, as the record of what the caller held
  shows, so the new reference is stored only after the call; afterwards \<open>get\<close>
  returns the new reference.
\<close>

theorem reset_adopts:
  assumes "resource_ptr \<noteq> nullptr"
  shows "fst (reset this resource_ptr s) = None \<and>
   snd (reset this resource_ptr s) = wr this resource_ptr (call_deleter this (get s this) s) \<and>
   get (call_deleter this (get s this) s) this = get s this \<and>
   trace (snd (reset this resource_ptr s)) = trace s @ [(this, get s this)] \<and>
   held_at_call (snd (reset this resource_ptr s)) = held_at_call s @ [get s this] \<and>
   world (snd (reset this resource_ptr s)) = operator_delete (objs s this) (get s this) (world s) \<and>
   get (snd (reset this resource_ptr s)) this = resource_ptr \<and>
   fst (reset_s this resource_ptr t) = None \<and>
   snd (reset_s this resource_ptr t) = wr_s this resource_ptr (delete_s this (get_s t this) t) \<and>
   get_s (delete_s this (get_s t this) t) this = get_s t this \<and>
   trace (snd (reset_s this resource_ptr t)) = trace t @ [(this, get_s t this)] \<and>
   held_at_call (snd (reset_s this resource_ptr t)) = held_at_call t @ [get_s t this] \<and>
   world (snd (reset_s this resource_ptr t)) = cxx_delete (get_s t this) (world t) \<and>
   get_s (snd (reset_s this resource_ptr t)) this = resource_ptr"
  using assms by (simp add: reset_def reset_s_def get_def get_s_def Let_def)

text \<open>The handle owning allocation 1 is reset to allocation 2: one deleter call, on
  allocation 1, made while the handle holds allocation 1 and not yet allocation 2;
  allocation 1 leaves the free store; the handle holds allocation 2.\<close>

theorem reset_adopts_witness:
  "Addr 2 \<noteq> nullptr \<and>
   fst (reset 0 (Addr 2) one_owner) = None \<and>
   trace (snd (reset 0 (Addr 2) one_owner)) = [(0, Addr 1)] \<and>
   held_at_call (snd (reset 0 (Addr 2) one_owner)) = [Addr 1] \<and>
   allocated (world (snd (reset 0 (Addr 2) one_owner))) = {2} \<and>
   get (snd (reset 0 (Addr 2) one_owner)) 0 = Addr 2 \<and>
   fst (reset_s 0 (Addr 2) one_owner_s) = None \<and>
   trace (snd (reset_s 0 (Addr 2) one_owner_s)) = [(0, Addr 1)] \<and>
   held_at_call (snd (reset_s 0 (Addr 2) one_owner_s)) = [Addr 1] \<and>
   allocated (world (snd (reset_s 0 (Addr 2) one_owner_s))) = {2} \<and>
   get_s (snd (reset_s 0 (Addr 2) one_owner_s)) 0 = Addr 2"
  using reset_adopts [of "Addr 2" 0 one_owner one_owner_s]
  by (auto simp add: get_def get_s_def unique_ptr_deleter_def two_allocations_def)

text \<open>
  C4. In both variants \<open>release\<close> returns the pointer the handle held (null if it was
  empty), leaves the handle empty, and calls no deleter; the destructor of the
  released handle then calls the deleter with the null pointer only. Moreover, when
  the handle was the only live one holding the reference, no later operation of any
  well-scoped program passes the released reference to the deleter, unless the client
  hands that reference to a handle again.
\<close>

theorem release_relinquishes:
  "fst (release this s) = get s this \<and>
   get (snd (release this s)) this = nullptr \<and>
   live (snd (release this s)) = live s \<and>
   trace (snd (release this s)) = trace s \<and>
   world (snd (release this s)) = world s \<and>
   trace (destructor this (snd (release this s))) = trace s @ [(this, nullptr)] \<and>
   (get s this \<noteq> nullptr \<and>
    list_all (\<lambda>h. h = this \<or> get s h \<noteq> get s this) (live s) \<and>
    well_scoped d xs (snd (release this s)) \<and>
    list_all (\<lambda>x. \<not> hands_over x (get s this)) xs
    \<longrightarrow> get s this \<notin> set (map snd (drop (length (trace s))
           (trace (exec_all d xs (snd (release this s))))))) \<and>
   fst (release_s this t) = get_s t this \<and>
   get_s (snd (release_s this t)) this = nullptr \<and>
   live (snd (release_s this t)) = live t \<and>
   trace (snd (release_s this t)) = trace t \<and>
   world (snd (release_s this t)) = world t \<and>
   trace (destructor_s this (snd (release_s this t))) = trace t @ [(this, nullptr)]"
proof -
  have never: "get s this \<notin> set (map snd (drop (length (trace s))
           (trace (exec_all d xs (snd (release this s))))))"
    if nn: "get s this \<noteq> nullptr"
    and ex: "list_all (\<lambda>h. h = this \<or> get s h \<noteq> get s this) (live s)"
    and ws: "well_scoped d xs (snd (release this s))"
    and nh: "list_all (\<lambda>x. \<not> hands_over x (get s this)) xs"
  proof -
    have held: "list_all (\<lambda>h. rd (snd (release this s)) h \<noteq> get s this) (live (snd (release this s)))"
      using ex nn by (auto simp: list_all_iff get_def)
    from not_held_exec_all [OF nn held ws nh] obtain evs where
      "trace (exec_all d xs (snd (release this s))) = trace s @ evs"
      "get s this \<notin> set (map snd evs)"
      by auto
    then show ?thesis by simp
  qed
  show ?thesis
    using never
    by (simp add: get_def get_s_def)
qed

text \<open>The handle owning allocation 1 releases it, is reset to allocation 2 and is
  destroyed: allocation 1 is returned and never reaches the deleter.\<close>

theorem release_relinquishes_witness:
  "get one_owner 0 \<noteq> nullptr \<and>
   list_all (\<lambda>h. h = 0 \<or> get one_owner h \<noteq> get one_owner 0) (live one_owner) \<and>
   well_scoped unique_ptr_deleter [Reset 0 (Addr 2), Destroy 0] (snd (release 0 one_owner)) \<and>
   list_all (\<lambda>x. \<not> hands_over x (get one_owner 0)) [Reset 0 (Addr 2), Destroy 0] \<and>
   fst (release 0 one_owner) = Addr 1 \<and>
   get (snd (release 0 one_owner)) 0 = nullptr \<and>
   trace (destructor 0 (snd (release 0 one_owner))) = [(0, nullptr)] \<and>
   Addr 1 \<notin> set (map snd (drop (length (trace one_owner))
      (trace (exec_all unique_ptr_deleter [Reset 0 (Addr 2), Destroy 0] (snd (release 0 one_owner)))))) \<and>
   fst (release_s 0 one_owner_s) = Addr 1 \<and>
   get_s (snd (release_s 0 one_owner_s)) 0 = nullptr \<and>
   trace (destructor_s 0 (snd (release_s 0 one_owner_s))) = [(0, nullptr)]"
  using release_relinquishes [of 0 one_owner unique_ptr_deleter "[Reset 0 (Addr 2), Destroy 0]" one_owner_s]
  by (simp add: get_def get_s_def)

text \<open>
  C5. Move-assignment exchanges the pointers of destination and source: the
  destination holds what the source held, the source what the destination held.
  Move-construction into a new object gives the new object the source's pointer and
  leaves the source null. Neither calls the deleter or touches the world.
\<close>

theorem move_transfers:
  "get (move_assign this move s) this = get s move \<and>
   get (move_assign this move s) move = get s this \<and>
   trace (move_assign this move s) = trace s \<and>
   world (move_assign this move s) = world s \<and>
   (this \<noteq> move \<longrightarrow>
      get (move_construct d this move s) this = get s move \<and>
      get (move_construct d this move s) move = nullptr) \<and>
   trace (move_construct d this move s) = trace s \<and>
   world (move_construct d this move s) = world s"
  by (simp add: get_def move_construct_eq)

text \<open>Object 1 is move-constructed from the handle owning allocation 1.\<close>

theorem move_transfers_witness:
  "(1::nat) \<noteq> 0 \<and>
   get (move_construct unique_ptr_deleter 1 0 one_owner) 1 = Addr 1 \<and>
   get (move_construct unique_ptr_deleter 1 0 one_owner) 0 = nullptr \<and>
   trace (move_construct unique_ptr_deleter 1 0 one_owner) = []"
  using move_transfers [of 1 0 one_owner unique_ptr_deleter]
  by (simp add: get_def)

text \<open>
  C6. Move-assigning a handle to itself leaves the whole state unchanged: its
  pointer, the world and the trace of deleter calls.
\<close>

theorem self_move_assign: "move_assign h h s = s"
  by (simp add: move_assign_def swap_def std_swap_def Let_def)

text \<open>
  C7. In the general variant \<open>swap\<close> exchanges the pointers of the two handles,
  changes no other handle, calls no deleter and leaves the world and the set of live
  objects as they were; if live handles owned exclusively before, they do afterwards.
  (The simplified variant has no swap that can be called.)
\<close>

theorem swap_exchanges:
  "get (swap a b s) a = get s b \<and>
   get (swap a b s) b = get s a \<and>
   (\<forall>h. h \<noteq> a \<and> h \<noteq> b \<longrightarrow> get (swap a b s) h = get s h) \<and>
   live (swap a b s) = live s \<and>
   trace (swap a b s) = trace s \<and>
   world (swap a b s) = world s \<and>
   (a \<in> set (live s) \<and> b \<in> set (live s) \<and> exclusive s \<longrightarrow> exclusive (swap a b s))"
proof -
  have ex: "exclusive (swap a b s)" if "a \<in> set (live s)" "b \<in> set (live s)" "exclusive s"
    using that by (auto simp: exclusive_def list_all_iff)
  show ?thesis using ex by (simp add: get_def)
qed

text \<open>Handle 0 owns allocation 1 and handle 1 owns allocation 2; they are swapped,
  and a third object is looked at.\<close>

theorem swap_exchanges_witness:
  "(2::nat) \<noteq> 0 \<and> (2::nat) \<noteq> 1 \<and>
   0 \<in> set (live (construct unique_ptr_deleter 1 (Addr 2) one_owner)) \<and>
   1 \<in> set (live (construct unique_ptr_deleter 1 (Addr 2) one_owner)) \<and>
   exclusive (construct unique_ptr_deleter 1 (Addr 2) one_owner) \<and>
   get (swap 0 1 (construct unique_ptr_deleter 1 (Addr 2) one_owner)) 0 = Addr 2 \<and>
   get (swap 0 1 (construct unique_ptr_deleter 1 (Addr 2) one_owner)) 1 = Addr 1 \<and>
   get (swap 0 1 (construct unique_ptr_deleter 1 (Addr 2) one_owner)) 2 =
     get (construct unique_ptr_deleter 1 (Addr 2) one_owner) 2 \<and>
   trace (swap 0 1 (construct unique_ptr_deleter 1 (Addr 2) one_owner)) = [] \<and>
   exclusive (swap 0 1 (construct unique_ptr_deleter 1 (Addr 2) one_owner))"
proof -
  have ex: "exclusive (construct unique_ptr_deleter 1 (Addr 2) one_owner)"
    by (simp add: exclusive_def)
  from swap_exchanges [of 0 1 "construct unique_ptr_deleter 1 (Addr 2) one_owner"] ex
  show ?thesis by (simp add: get_def)
qed

text \<open>
  C8. The boolean conversion is true exactly when \<open>get\<close> is not null: false after
  default and null construction, true after construction from, a successful \<open>reset\<close>
  to, or a move-in of a non-null reference, and false after \<open>release\<close>.
\<close>

theorem bool_matches_ownership:
  "operator_bool s h = (get s h \<noteq> nullptr) \<and>
   \<not> operator_bool (construct_default d h s) h \<and>
   \<not> operator_bool (construct_nullptr d h s) h \<and>
   operator_bool (construct d h p s) h = (p \<noteq> nullptr) \<and>
   (p \<noteq> nullptr \<longrightarrow> operator_bool (snd (reset h p s)) h) \<and>
   (h \<noteq> src \<and> get s src \<noteq> nullptr \<longrightarrow> operator_bool (move_construct d h src s) h) \<and>
   (get s src \<noteq> nullptr \<longrightarrow> operator_bool (move_assign h src s) h) \<and>
   \<not> operator_bool (snd (release h s)) h"
  by (simp add: operator_bool_def get_def construct_nullptr_eq construct_default_eq move_construct_eq)

text \<open>Object 1 beside the handle owning allocation 1: reset to allocation 2,
  move-constructed and move-assigned from that handle.\<close>

theorem bool_matches_ownership_witness:
  "Addr 2 \<noteq> nullptr \<and>
   operator_bool (snd (reset 1 (Addr 2) one_owner)) 1 \<and>
   (1::nat) \<noteq> 0 \<and> get one_owner 0 \<noteq> nullptr \<and>
   operator_bool (move_construct unique_ptr_deleter 1 0 one_owner) 1 \<and>
   operator_bool (move_assign 1 0 one_owner) 1 \<and>
   operator_bool one_owner 0 \<and>
   \<not> operator_bool (snd (release 0 one_owner)) 0"
  using bool_matches_ownership [of one_owner 1 unique_ptr_deleter "Addr 2" 0]
    bool_matches_ownership [of one_owner 0 unique_ptr_deleter "Addr 2" 0]
  by (simp add: get_def)

text \<open>
  C9. With the default deleter, each operation that can be called in both variants
  gives the same result and the same next state in the simplified variant as in the
  general one: construction from a raw and from a null reference, \<open>get\<close>,
  \<open>release\<close>, \<open>reset\<close> (exception included), both dereference operators, the
  destructor, and hence every program of these operations. The swap of the
  simplified variant is the one listed operation left out: its body is ill-formed,
  so it has no result to compare with the exchange the general variant makes.
\<close>

lemma callable_operations_agree:
  "to_general (construct_s h p t) = construct unique_ptr_deleter h p (to_general t) \<and>
   to_general (construct_nullptr_s h t) = construct_nullptr unique_ptr_deleter h (to_general t) \<and>
   get_s t h = get (to_general t) h \<and>
   fst (release_s h t) = fst (release h (to_general t)) \<and>
   to_general (snd (release_s h t)) = snd (release h (to_general t)) \<and>
   fst (reset_s h p t) = fst (reset h p (to_general t)) \<and>
   to_general (snd (reset_s h p t)) = snd (reset h p (to_general t)) \<and>
   operator_arrow_s t h = operator_arrow (to_general t) h \<and>
   operator_star_s t h = operator_star (to_general t) h \<and>
   to_general (destructor_s h t) = destructor h (to_general t) \<and>
   to_general (exec_all_s ys t) = exec_all unique_ptr_deleter (map as_general ys) (to_general t)"
proof -
  have single:
    "to_general (construct_s h p t) = construct unique_ptr_deleter h p (to_general t)"
    "to_general (construct_nullptr_s h t) = construct_nullptr unique_ptr_deleter h (to_general t)"
    "to_general (snd (release_s h t)) = snd (release h (to_general t))"
    "to_general (snd (reset_s h p t)) = snd (reset h p (to_general t))"
    "to_general (destructor_s h t) = destructor h (to_general t)"
    using exec_s_refines [of "Construct_s h p" t] exec_s_refines [of "ConstructNull_s h" t]
      exec_s_refines [of "Release_s h" t] exec_s_refines [of "Reset_s h p" t]
      exec_s_refines [of "Destroy_s h" t]
    by simp_all
  have observers:
    "get_s t h = get (to_general t) h"
    "fst (release_s h t) = fst (release h (to_general t))"
    "fst (reset_s h p t) = fst (reset h p (to_general t))"
    "operator_arrow_s t h = operator_arrow (to_general t) h"
    "operator_star_s t h = operator_star (to_general t) h"
    by (simp_all add: get_s_def get_def reset_s_def reset_def operator_arrow_s_def
          operator_arrow_def operator_star_s_def operator_star_def)
  show ?thesis
    using single observers exec_all_s_refines [of ys t] by simp
qed

text \<open>
  C10. After a move out of handle \<open>h\<close>, by move-construction of a new object or by
  move-assignment into an empty destination, \<open>get\<close> and \<open>release\<close> on \<open>h\<close> return
  null, its boolean conversion is false, and the object \<open>h\<close> has the very value a
  default constructor gives it, so that every later operation finds what it would
  find in a default-constructed handle; its destructor, for one, calls the deleter
  with the null pointer.
\<close>

theorem moved_from_is_empty:
  assumes "operator_delete (objs s h) = d"
  shows
  "get (move_construct d new h s) h = nullptr \<and>
   fst (release h (move_construct d new h s)) = nullptr \<and>
   \<not> operator_bool (move_construct d new h s) h \<and>
   objs (move_construct d new h s) h = objs (construct_default d h s0) h \<and>
   trace (destructor h (move_construct d new h s)) = trace s @ [(h, nullptr)] \<and>
   (get s dst = nullptr \<longrightarrow>
      get (move_assign dst h s) h = nullptr \<and>
      fst (release h (move_assign dst h s)) = nullptr \<and>
      \<not> operator_bool (move_assign dst h s) h \<and>
      objs (move_assign dst h s) h = objs (construct_default d h s0) h \<and>
      live (move_assign dst h s) = live s \<and>
      trace (destructor h (move_assign dst h s)) = trace s @ [(h, nullptr)])"
  using assms
  by (auto simp add: get_def operator_bool_def move_construct_eq construct_default_def
       move_assign_def swap_def std_swap_def wr_def rd_def construct_def release_def
       destructor_def call_deleter_def Let_def)

text \<open>The handle owning allocation 1 is moved from: into a new object 2, and into the
  default-constructed handle 1.\<close>

theorem moved_from_is_empty_witness:
  "operator_delete (objs (construct_default unique_ptr_deleter 1 one_owner) 0) = unique_ptr_deleter \<and>
   get (construct_default unique_ptr_deleter 1 one_owner) 1 = nullptr \<and>
   get (move_construct unique_ptr_deleter 2 0 (construct_default unique_ptr_deleter 1 one_owner)) 0 = nullptr \<and>
   get (move_construct unique_ptr_deleter 2 0 (construct_default unique_ptr_deleter 1 one_owner)) 2 = Addr 1 \<and>
   \<not> operator_bool (move_construct unique_ptr_deleter 2 0 (construct_default unique_ptr_deleter 1 one_owner)) 0 \<and>
   get (move_assign 1 0 (construct_default unique_ptr_deleter 1 one_owner)) 0 = nullptr \<and>
   get (move_assign 1 0 (construct_default unique_ptr_deleter 1 one_owner)) 1 = Addr 1 \<and>
   fst (release 0 (move_assign 1 0 (construct_default unique_ptr_deleter 1 one_owner))) = nullptr \<and>
   \<not> operator_bool (move_assign 1 0 (construct_default unique_ptr_deleter 1 one_owner)) 0 \<and>
   objs (move_assign 1 0 (construct_default unique_ptr_deleter 1 one_owner)) 0 =
     objs (construct_default unique_ptr_deleter 0 one_owner) 0 \<and>
   trace (destructor 0 (move_assign 1 0 (construct_default unique_ptr_deleter 1 one_owner))) =
     [(0, nullptr)]"
proof -
  have d: "operator_delete (objs (construct_default unique_ptr_deleter 1 one_owner) 0) = unique_ptr_deleter"
    by (simp add: construct_default_def)
  have e: "get (construct_default unique_ptr_deleter 1 one_owner) 1 = nullptr"
    by (simp add: get_def construct_default_eq)
  from moved_from_is_empty [OF d, of 2 one_owner 1] d e
  show ?thesis
    by (simp add: get_def construct_default_eq move_construct_eq)
qed

end
